theory Spec2Isabelle
  imports Complex_Main
begin

section \<open>FPL team analyzer: the serverless function \<open>analyze-team.js\<close>\<close>

text \<open>
  The development embeds \<open>src/netlify/functions/analyze-team.js\<close>: the request
  handler and its helpers \<open>getNextFixtures\<close>, \<open>getPosition\<close>, \<open>getRating\<close>,
  \<open>getRatingClass\<close>, \<open>findTransferOpportunities\<close>, \<open>getCaptainRecommendations\<close>
  and \<open>generateInsights\<close>.

  Numbers. JavaScript numbers are IEEE doubles. The model computes with exact rationals
  and keeps one non-finite value, \<open>NaN\<close>, written out where the source can produce it
  (\<open>0 / 0\<close> in the average of an empty fixture list). Rounding error of the doubles is not
  modelled. A decimal string of the payload or of the output (\<open>form\<close>, the results of
  \<open>toFixed(1)\<close>) is represented by the number it denotes, so that \<open>parseFloat\<close> of it is
  the identity. The payload's \<open>form\<close> is taken to be such a decimal string, so a form that
  does not parse is outside the model.

  Sorting. \<open>Array.prototype.sort\<close> is stable, and every comparator of the source is a
  difference of numeric keys; the model sorts with \<open>sort_key\<close>, the stable insertion sort,
  on that key, negated where the source sorts in descending order.

  Arrays. \<open>filter\<close>, \<open>map\<close> and \<open>slice\<close> return fresh arrays, and the source sorts
  only such fresh arrays, so no list is shared and mutated.
\<close>

subsection \<open>JavaScript values used by the code\<close>

datatype jsnum = NaN | Num rat

text \<open>\<open>x || d\<close> on numbers: \<open>NaN\<close> and \<open>0\<close> are falsy.\<close>

definition js_or :: "jsnum \<Rightarrow> rat \<Rightarrow> rat" where
  "js_or x d = (case x of NaN \<Rightarrow> d | Num q \<Rightarrow> (if q = 0 then d else q))"

text \<open>
  \<open>x.toFixed(1)\<close>: the integer \<open>n\<close> with \<open>n / 10\<close> closest to \<open>|x|\<close>, the larger one on
  a tie, with the sign of \<open>x\<close>; the value of the resulting decimal string.
\<close>

definition toFixed1 :: "rat \<Rightarrow> rat" where
  "toFixed1 x =
     (let n = \<lfloor>\<bar>x\<bar> * 10 + 1 / 2\<rfloor>
      in if x < 0 then - (of_int n / 10) else of_int n / 10)"

text \<open>\<open>Math.round\<close>: the nearest integer, a tie going up.\<close>

definition Math_round :: "rat \<Rightarrow> int" where
  "Math_round x = \<lfloor>x + 1 / 2\<rfloor>"

text \<open>
  A key of a JavaScript \<open>Map\<close> is compared by SameValueZero: a number never equals a
  string.
\<close>

datatype jskey = KNum int | KStr string

text \<open>
  A \<open>Map\<close> is an association list in insertion order. \<open>set\<close> on a key that is present
  replaces the value in place; on a new key it appends.
\<close>

type_synonym ('k, 'v) jsmap = "('k \<times> 'v) list"

fun map_set :: "'k \<Rightarrow> 'v \<Rightarrow> ('k, 'v) jsmap \<Rightarrow> ('k, 'v) jsmap" where
  "map_set k v [] = [(k, v)]"
| "map_set k v ((k', v') # m) = (if k' = k then (k, v) # m else (k', v') # map_set k v m)"

definition map_get :: "('k, 'v) jsmap \<Rightarrow> 'k \<Rightarrow> 'v option" where
  "map_get m k = map_of m k"

definition map_values :: "('k, 'v) jsmap \<Rightarrow> 'v list" where
  "map_values m = map snd m"

text \<open>\<open>xs.join(', ')\<close>.\<close>

fun join_comma :: "string list \<Rightarrow> string" where
  "join_comma [] = []"
| "join_comma [s] = s"
| "join_comma (s # t # ss) = s @ '', '' @ join_comma (t # ss)"

text \<open>\<open>s.toLowerCase()\<close> on ASCII text.\<close>

definition lower_char :: "char \<Rightarrow> char" where
  "lower_char c =
     (let n = (of_char c :: nat) in if 65 \<le> n \<and> n \<le> 90 then char_of (n + 32) else c)"

definition toLowerCase :: "string \<Rightarrow> string" where
  "toLowerCase s = map lower_char s"

subsection \<open>The upstream payloads\<close>

text \<open>
  Fields as the upstream API delivers them: identifiers, team codes, gameweeks, prices
  (tenths) and difficulty ratings are numbers, short names and display names are strings,
  \<open>form\<close> is a decimal string.
\<close>

record team =
  t_id :: int
  short_name :: string

text \<open>
  An element of the bootstrap payload. The handler stores each one in the player lookup
  with \<open>team\<close> replaced by the team's short name, whence the type parameter.
\<close>

record 't element =
  e_id :: int
  web_name :: string
  e_team :: 't
  team_code :: int
  element_type :: int
  now_cost :: int
  e_form :: rat
  selected_by_percent :: string
  total_points :: int
  points_per_game :: string

record gw_event =
  ev_id :: "int option"
  is_current :: bool

record bootstrap =
  events :: "gw_event list"
  elements :: "int element list"
  teams :: "team list"

record fixture =
  event :: int
  team_h :: int
  team_a :: int
  team_h_difficulty :: int
  team_a_difficulty :: int

record teamData =
  player_first_name :: string
  player_last_name :: string
  last_deadline_value :: int
  last_deadline_bank :: int
  summary_overall_rank :: int
  summary_event_rank :: int
  summary_overall_points :: int

record pick =
  pk_element :: int
  is_captain :: bool
  is_vice_captain :: bool

subsection \<open>The fixture projector\<close>

record projected =
  gameweek :: int
  opponent :: string
  difficulty :: int
  isHome :: bool

text \<open>
  The short name read through \<open>teamsMap.get(id)?.short_name\<close> inside a template
  literal: a missing team prints as \<open>undefined\<close>.
\<close>

definition opponent_name :: "(int, team) jsmap \<Rightarrow> int \<Rightarrow> string" where
  "opponent_name teamsMap i =
     (case map_get teamsMap i of None \<Rightarrow> ''undefined'' | Some t \<Rightarrow> short_name t)"

text \<open>The callback of \<open>.map\<close> in \<open>getNextFixtures\<close>.\<close>

definition project :: "(int, team) jsmap \<Rightarrow> team \<Rightarrow> fixture \<Rightarrow> projected" where
  "project teamsMap tm f =
     (let home = (team_h f = t_id tm)
      in \<lparr> gameweek = event f,
           opponent = (if home then [] else ''@'') @
                      (if home then opponent_name teamsMap (team_a f)
                       else opponent_name teamsMap (team_h f)),
           difficulty = (if home then team_h_difficulty f else team_a_difficulty f),
           isHome = home \<rparr>)"

definition upcomingFixtures :: "fixture list \<Rightarrow> int \<Rightarrow> fixture list" where
  "upcomingFixtures allFixtures currentGW =
     sort_key event
       (filter (\<lambda>f. event f \<ge> currentGW \<and> event f \<le> currentGW + 8) allFixtures)"

definition team_fixtures :: "fixture list \<Rightarrow> (int, team) jsmap \<Rightarrow> team \<Rightarrow> projected list" where
  "team_fixtures upcoming teamsMap tm =
     take 8 (map (project teamsMap tm)
               (filter (\<lambda>f. team_h f = t_id tm \<or> team_a f = t_id tm) upcoming))"

definition getNextFixtures ::
  "fixture list \<Rightarrow> int \<Rightarrow> (int, team) jsmap \<Rightarrow> (jskey, projected list) jsmap" where
  "getNextFixtures allFixtures currentGW teamsMap =
     (let upcoming = upcomingFixtures allFixtures currentGW
      in fold (\<lambda>(teamCode, tm) teamFixtures.
                 map_set (KStr (short_name tm)) (team_fixtures upcoming teamsMap tm) teamFixtures)
           teamsMap [])"

subsection \<open>Position and rating\<close>

definition getPosition :: "int \<Rightarrow> string" where
  "getPosition elementType =
     (if elementType = 1 then ''GK''
      else if elementType = 2 then ''DEF''
      else if elementType = 3 then ''MID''
      else if elementType = 4 then ''FWD''
      else ''UNK'')"

definition getRating :: "rat \<Rightarrow> rat \<Rightarrow> string" where
  "getRating form avgDifficulty =
     (let formScore = form * 2;
          fixtureBonus = (5 - avgDifficulty) * 2;
          totalScore = formScore + fixtureBonus
      in if totalScore \<ge> 14 then ''Excellent''
         else if totalScore \<ge> 10 then ''Good''
         else if totalScore \<ge> 6 then ''Average''
         else ''Poor'')"

definition getRatingClass :: "rat \<Rightarrow> rat \<Rightarrow> string" where
  "getRatingClass form avgDifficulty = toLowerCase (getRating form avgDifficulty)"

text \<open>
  \<open>fixtures.reduce((sum, f) => sum + f.difficulty, 0) / fixtures.length\<close>: on the empty
  list the sum is the initial \<open>0\<close> and \<open>0 / 0\<close> is \<open>NaN\<close>.
\<close>

definition mean_difficulty :: "projected list \<Rightarrow> jsnum" where
  "mean_difficulty fixtures =
     (if length fixtures = 0 then NaN
      else Num (of_int (fold (\<lambda>f sum. sum + difficulty f) fixtures 0) / of_nat (length fixtures)))"

definition avgDifficultyOf :: "projected list \<Rightarrow> rat" where
  "avgDifficultyOf fixtures = js_or (mean_difficulty fixtures) 3"

subsection \<open>Lookups built by the handler\<close>

text \<open>
  \<open>bootstrapData.teams.find(t => t.id === player.team)?.short_name || 'UNK'\<close>: an
  unknown team and an empty short name both give \<open>UNK\<close>.
\<close>

definition team_short :: "team list \<Rightarrow> int \<Rightarrow> string" where
  "team_short ts i =
     (case find (\<lambda>t. t_id t = i) ts of
        None \<Rightarrow> ''UNK''
      | Some t \<Rightarrow> (if short_name t = [] then ''UNK'' else short_name t))"

text \<open>\<open>{ ...player, team: short }\<close>.\<close>

definition with_team :: "int element \<Rightarrow> string \<Rightarrow> string element" where
  "with_team p s =
     \<lparr> e_id = e_id p, web_name = web_name p, e_team = s, team_code = team_code p,
       element_type = element_type p, now_cost = now_cost p, e_form = e_form p,
       selected_by_percent = selected_by_percent p, total_points = total_points p,
       points_per_game = points_per_game p \<rparr>"

definition buildPlayersMap :: "bootstrap \<Rightarrow> (int, string element) jsmap" where
  "buildPlayersMap bootstrapData =
     fold (\<lambda>player playersMap.
             map_set (e_id player) (with_team player (team_short (teams bootstrapData) (e_team player)))
               playersMap)
       (elements bootstrapData) []"

definition buildTeamsMap :: "bootstrap \<Rightarrow> (int, team) jsmap" where
  "buildTeamsMap bootstrapData =
     fold (\<lambda>tm teamsMap. map_set (t_id tm) tm teamsMap) (teams bootstrapData) []"

text \<open>\<open>bootstrapData.events.find(e => e.is_current)?.id || 1\<close>.\<close>

definition currentGW_of :: "bootstrap \<Rightarrow> int" where
  "currentGW_of bootstrapData =
     (case find is_current (events bootstrapData) of
        None \<Rightarrow> 1
      | Some e \<Rightarrow> (case ev_id e of None \<Rightarrow> 1 | Some i \<Rightarrow> (if i = 0 then 1 else i)))"

subsection \<open>The squad analyzer\<close>

record squad_entry =
  s_id :: int
  s_name :: string
  s_team :: string
  s_position :: string
  s_price :: rat
  s_form :: rat
  selectedBy :: string
  s_fixtures :: string
  s_avgDifficulty :: rat
  rating :: string
  ratingClass :: string
  totalPoints :: int
  pointsPerGame :: string
  isCaptain :: bool
  isViceCaptain :: bool

text \<open>
  \<open>m.get(k)?.slice(0, n) || []\<close>: the first \<open>n\<close> fixtures stored under \<open>k\<close>, the empty
  list when \<open>k\<close> is not a key.
\<close>

definition first_fixtures ::
  "(jskey, projected list) jsmap \<Rightarrow> jskey \<Rightarrow> nat \<Rightarrow> projected list" where
  "first_fixtures teamFixtures k n =
     (case map_get teamFixtures k of None \<Rightarrow> [] | Some fs \<Rightarrow> take n fs)"

text \<open>
  The callback of \<open>picksData.picks.map\<close>. A pick whose element is not in the player
  lookup makes \<open>player.team_code\<close> throw: the result is \<open>None\<close>. The fixtures are looked
  up under \<open>player.team_code\<close>, a number.
\<close>

definition analyzePick ::
  "(int, string element) jsmap \<Rightarrow> (jskey, projected list) jsmap \<Rightarrow> pick \<Rightarrow> squad_entry option" where
  "analyzePick playersMap teamFixtures pk =
     (case map_get playersMap (pk_element pk) of
        None \<Rightarrow> None
      | Some player \<Rightarrow>
          (let fixtures = first_fixtures teamFixtures (KNum (team_code player)) 5;
               avgDifficulty = avgDifficultyOf fixtures
           in Some \<lparr> s_id = e_id player,
                     s_name = web_name player,
                     s_team = e_team player,
                     s_position = getPosition (element_type player),
                     s_price = of_int (now_cost player) / 10,
                     s_form = toFixed1 (e_form player),
                     selectedBy = selected_by_percent player,
                     s_fixtures = join_comma (map opponent fixtures),
                     s_avgDifficulty = toFixed1 avgDifficulty,
                     rating = getRating (e_form player) avgDifficulty,
                     ratingClass = getRatingClass (e_form player) avgDifficulty,
                     totalPoints = total_points player,
                     pointsPerGame = points_per_game player,
                     isCaptain = is_captain pk,
                     isViceCaptain = is_vice_captain pk \<rparr>))"

text \<open>The whole \<open>.map\<close>: the first unresolved pick aborts it.\<close>

fun analyzeSquad ::
  "(int, string element) jsmap \<Rightarrow> (jskey, projected list) jsmap \<Rightarrow> pick list \<Rightarrow> squad_entry list option" where
  "analyzeSquad playersMap teamFixtures [] = Some []"
| "analyzeSquad playersMap teamFixtures (pk # pks) =
     (case analyzePick playersMap teamFixtures pk of
        None \<Rightarrow> None
      | Some s \<Rightarrow> (case analyzeSquad playersMap teamFixtures pks of
                     None \<Rightarrow> None
                   | Some ss \<Rightarrow> Some (s # ss)))"

subsection \<open>The transfer suggester\<close>

text \<open>\<open>{ ...p, avgDifficulty: avgDiff, fixtures }\<close>.\<close>

record candidate =
  c_player :: "string element"
  c_avgDifficulty :: rat
  c_fixtures :: "projected list"

text \<open>
  A pushed transfer. The source copies display fields of both players into the object
  (name, team, form, price, fixtures) and builds two reasoning sentences from them; the
  model keeps both players whole.
\<close>

record transfer =
  playerOut :: squad_entry
  playerIn :: candidate
  cost :: rat
  projectedPoints :: rat

definition transferOutCandidates :: "squad_entry list \<Rightarrow> squad_entry list" where
  "transferOutCandidates squad =
     take 3 (sort_key s_form (filter (\<lambda>p. s_form p < 3 \<or> s_avgDifficulty p > 7 / 2) squad))"

definition score_candidate :: "(jskey, projected list) jsmap \<Rightarrow> string element \<Rightarrow> candidate" where
  "score_candidate teamFixtures p =
     (let fixtures = first_fixtures teamFixtures (KStr (e_team p)) 5;
          avgDiff = avgDifficultyOf fixtures
      in \<lparr> c_player = p, c_avgDifficulty = avgDiff, c_fixtures = fixtures \<rparr>)"

definition eligible :: "squad_entry list \<Rightarrow> rat \<Rightarrow> squad_entry \<Rightarrow> string element \<Rightarrow> bool" where
  "eligible squad bank out p \<longleftrightarrow>
     getPosition (element_type p) = s_position out \<and>
     of_int (now_cost p) / 10 \<le> s_price out + bank \<and>
     e_form p > s_form out \<and>
     e_id p \<noteq> s_id out \<and>
     find (\<lambda>s. s_id s = e_id p) squad = None"

definition alternatives ::
  "squad_entry list \<Rightarrow> (int, string element) jsmap \<Rightarrow> (jskey, projected list) jsmap \<Rightarrow> rat \<Rightarrow>
   squad_entry \<Rightarrow> candidate list" where
  "alternatives squad playersMap teamFixtures bank out =
     take 1
       (sort_key (\<lambda>a. - (e_form (c_player a) * 2 - c_avgDifficulty a))
          (map (score_candidate teamFixtures)
             (filter (eligible squad bank out) (map_values playersMap))))"

definition make_transfer :: "squad_entry \<Rightarrow> candidate \<Rightarrow> transfer" where
  "make_transfer out inc =
     \<lparr> playerOut = out,
       playerIn = inc,
       cost = toFixed1 (of_int (now_cost (c_player inc)) / 10 - s_price out),
       projectedPoints = toFixed1 ((e_form (c_player inc) - s_form out) * 5) \<rparr>"

definition findTransferOpportunities ::
  "squad_entry list \<Rightarrow> (int, string element) jsmap \<Rightarrow> (jskey, projected list) jsmap \<Rightarrow> rat \<Rightarrow>
   transfer list" where
  "findTransferOpportunities squad playersMap teamFixtures bank =
     take 2
       (concat
          (map (\<lambda>out. case alternatives squad playersMap teamFixtures bank out of
                        [] \<Rightarrow> []
                      | inc # _ \<Rightarrow> [make_transfer out inc])
             (transferOutCandidates squad)))"

subsection \<open>The captaincy ranker\<close>

record captain_candidate =
  cc_player :: squad_entry
  nextFixture :: string
  captainScore :: rat
  cc_confidence :: int

text \<open>The callback of the first \<open>.map\<close> in \<open>getCaptainRecommendations\<close>.\<close>

definition score_captain :: "(jskey, projected list) jsmap \<Rightarrow> squad_entry \<Rightarrow> captain_candidate" where
  "score_captain teamFixtures player =
     (let fixtures = first_fixtures teamFixtures (KStr (s_team player)) 1;
          next = (case fixtures of [] \<Rightarrow> None | f # _ \<Rightarrow> Some f);
          formScore = s_form player * 10;
          fixtureScore = (case next of None \<Rightarrow> 0 | Some f \<Rightarrow> of_int ((6 - difficulty f) * 5));
          homeBonus = (case next of None \<Rightarrow> 0 | Some f \<Rightarrow> (if isHome f then 5 else 0));
          totalScore = formScore + fixtureScore + homeBonus
      in \<lparr> cc_player = player,
           nextFixture = (case next of None \<Rightarrow> ''N/A''
                          | Some f \<Rightarrow> (if opponent f = [] then ''N/A'' else opponent f)),
           captainScore = totalScore,
           cc_confidence = min 95 (Math_round (totalScore * (6 / 5))) \<rparr>)"

definition captainCandidates ::
  "squad_entry list \<Rightarrow> (jskey, projected list) jsmap \<Rightarrow> captain_candidate list" where
  "captainCandidates squad teamFixtures =
     take 3 (sort_key (\<lambda>c. - captainScore c) (map (score_captain teamFixtures) squad))"

text \<open>
  The reasoning sentence: the first entry names form, next opponent and ownership, the
  others form and next opponent.
\<close>

datatype reasoning = TopForm rat string string | GoodForm rat string

record captain =
  cap_name :: string
  confidence :: int
  cap_reasoning :: reasoning

definition render_captain :: "nat \<times> captain_candidate \<Rightarrow> captain" where
  "render_captain ip =
     (case ip of (idx, p) \<Rightarrow>
        \<lparr> cap_name = s_name (cc_player p) @ '' ('' @ s_team (cc_player p) @ '')'',
          confidence = cc_confidence p,
          cap_reasoning =
            (if idx = 0
             then TopForm (s_form (cc_player p)) (nextFixture p) (selectedBy (cc_player p))
             else GoodForm (s_form (cc_player p)) (nextFixture p)) \<rparr>)"

definition getCaptainRecommendations ::
  "squad_entry list \<Rightarrow> (jskey, projected list) jsmap \<Rightarrow> captain list" where
  "getCaptainRecommendations squad teamFixtures =
     map render_captain (enumerate 0 (captainCandidates squad teamFixtures))"

subsection \<open>The insight generator\<close>

text \<open>
  An insight is an icon, a title and a message; icon and title are fixed per kind and the
  message is a fixed sentence around one computed number. One constructor per
  \<open>insights.push\<close> of the source, carrying that number.
\<close>

datatype insight =
    StrongFixtureRun nat
  | DifficultFixturesAhead nat
  | FormConcerns nat
  | StrongTeamValue rat
  | TransferOpportunities nat
  | TeamLookingSolid

fun title :: "insight \<Rightarrow> string" where
  "title (StrongFixtureRun _) = ''Strong Fixture Run''"
| "title (DifficultFixturesAhead _) = ''Difficult Fixtures Ahead''"
| "title (FormConcerns _) = ''Form Concerns''"
| "title (StrongTeamValue _) = ''Strong Team Value''"
| "title (TransferOpportunities _) = ''Transfer Opportunities''"
| "title TeamLookingSolid = ''Team Looking Solid''"

definition generateInsights :: "squad_entry list \<Rightarrow> transfer list \<Rightarrow> teamData \<Rightarrow> insight list" where
  "generateInsights squad transfers td =
     (let easyFixtures = length (filter (\<lambda>p. s_avgDifficulty p < 5 / 2) squad);
          hardFixtures = length (filter (\<lambda>p. s_avgDifficulty p > 7 / 2) squad);
          insights1 = (if easyFixtures \<ge> 5 then [StrongFixtureRun easyFixtures]
                       else if hardFixtures \<ge> 5 then [DifficultFixturesAhead hardFixtures]
                       else []);
          poorForm = length (filter (\<lambda>p. s_form p < 2) squad);
          insights2 = (if poorForm \<ge> 3 then insights1 @ [FormConcerns poorForm] else insights1);
          teamValue = (of_int (last_deadline_value td) / 10 :: rat);
          insights3 = (if teamValue \<ge> 103 then insights2 @ [StrongTeamValue (toFixed1 teamValue)]
                       else insights2)
      in if length transfers > 0
         then insights3 @ [TransferOpportunities (length transfers)]
         else insights3 @ [TeamLookingSolid])"

subsection \<open>The handler\<close>

record analysis =
  teamName :: string
  teamValue :: rat
  a_bank :: rat
  overallRank :: int
  gameweekRank :: int
  a_totalPoints :: int
  a_currentGW :: int
  a_squad :: "squad_entry list"
  a_transfers :: "transfer list"
  a_captains :: "captain list"
  a_insights :: "insight list"

text \<open>
  The body of a response: empty, the validation error \<open>{error}\<close>, the failure
  \<open>{error, message}\<close> (the message is the text of the caught error), or the analysis.
\<close>

datatype body =
    Empty
  | Json_error string
  | Json_failure string
  | Json_analysis analysis

text \<open>The keys of the JSON object in the body.\<close>

fun body_fields :: "body \<Rightarrow> string list" where
  "body_fields Empty = []"
| "body_fields (Json_error _) = [''error'']"
| "body_fields (Json_failure _) = [''error'', ''message'']"
| "body_fields (Json_analysis _) =
     [''teamName'', ''teamValue'', ''bank'', ''overallRank'', ''gameweekRank'', ''totalPoints'',
      ''currentGW'', ''squad'', ''transfers'', ''captains'', ''insights'']"

record response =
  statusCode :: int
  headers :: "(string \<times> string) list"
  body :: body

definition cors_headers :: "(string \<times> string) list" where
  "cors_headers =
     [(''Access-Control-Allow-Origin'', ''*''),
      (''Access-Control-Allow-Headers'', ''Content-Type''),
      (''Access-Control-Allow-Methods'', ''GET, OPTIONS''),
      (''Content-Type'', ''application/json'')]"

record http_event =
  httpMethod :: string
  queryStringParameters :: "(string \<times> string) list option"

text \<open>\<open>event.queryStringParameters?.teamId\<close>.\<close>

definition teamId_of :: "http_event \<Rightarrow> string option" where
  "teamId_of ev =
     (case queryStringParameters ev of None \<Rightarrow> None | Some ps \<Rightarrow> map_of ps ''teamId'')"

text \<open>
  The four upstream endpoints, and what each returns in a given run: \<open>None\<close> is a fetch
  that rejects (network failure or a body that is not JSON).
\<close>

datatype request = Bootstrap | Team string | Fixtures | Picks string int

record upstream =
  up_bootstrap :: "bootstrap option"
  up_team :: "string \<Rightarrow> teamData option"
  up_fixtures :: "fixture list option"
  up_picks :: "string \<Rightarrow> int \<Rightarrow> pick list option"

text \<open>
  Lines 57 to 125 of the handler: lookups, fixture projection, squad, recommendations and
  the assembled analysis. \<open>None\<close> is the TypeError of an unresolved pick.
\<close>

definition analyse ::
  "bootstrap \<Rightarrow> teamData \<Rightarrow> fixture list \<Rightarrow> pick list \<Rightarrow> int \<Rightarrow> analysis option" where
  "analyse bootstrapData td fixturesData picks gw =
     (let playersMap = buildPlayersMap bootstrapData;
          teamsMap = buildTeamsMap bootstrapData;
          teamFixtures = getNextFixtures fixturesData gw teamsMap
      in case analyzeSquad playersMap teamFixtures picks of
           None \<Rightarrow> None
         | Some sq \<Rightarrow>
             (let trs = findTransferOpportunities sq playersMap teamFixtures
                          (of_int (last_deadline_bank td) / 10);
                  caps = getCaptainRecommendations sq teamFixtures;
                  ins = generateInsights sq trs td
              in Some \<lparr> teamName = player_first_name td @ '' '' @ player_last_name td,
                        teamValue = toFixed1 (of_int (last_deadline_value td) / 10),
                        a_bank = toFixed1 (of_int (last_deadline_bank td) / 10),
                        overallRank = summary_overall_rank td,
                        gameweekRank = summary_event_rank td,
                        a_totalPoints = summary_overall_points td,
                        a_currentGW = gw,
                        a_squad = sq,
                        a_transfers = trs,
                        a_captains = caps,
                        a_insights = ins \<rparr>))"

definition bad_request :: response where
  "bad_request =
     \<lparr> statusCode = 400, headers = cors_headers, body = Json_error ''Team ID is required'' \<rparr>"

definition failed :: response where
  "failed =
     \<lparr> statusCode = 500, headers = cors_headers, body = Json_failure ''Failed to analyze team'' \<rparr>"

definition respond :: "analysis option \<Rightarrow> response" where
  "respond r =
     (case r of
        None \<Rightarrow> failed
      | Some a \<Rightarrow> \<lparr> statusCode = 200, headers = cors_headers, body = Json_analysis a \<rparr>)"

text \<open>
  The handler returns the response and the upstream requests it issued, in order. The
  three fetches of \<open>Promise.all\<close> are all issued before any of them is awaited; the picks
  fetch is issued only when all three have resolved.
\<close>

definition handler :: "upstream \<Rightarrow> http_event \<Rightarrow> response \<times> request list" where
  "handler up ev =
     (if httpMethod ev = ''OPTIONS''
      then (\<lparr> statusCode = 200, headers = cors_headers, body = Empty \<rparr>, [])
      else
        (case teamId_of ev of
           None \<Rightarrow> (bad_request, [])
         | Some teamId \<Rightarrow>
             (if teamId = [] then (bad_request, [])
              else
                (let issued = [Bootstrap, Team teamId, Fixtures]
                 in case up_bootstrap up of
                      None \<Rightarrow> (failed, issued)
                    | Some bootstrapData \<Rightarrow>
                        (case up_team up teamId of
                           None \<Rightarrow> (failed, issued)
                         | Some td \<Rightarrow>
                             (case up_fixtures up of
                                None \<Rightarrow> (failed, issued)
                              | Some fixturesData \<Rightarrow>
                                  (let gw = currentGW_of bootstrapData;
                                       issued' = issued @ [Picks teamId gw]
                                   in case up_picks up teamId gw of
                                        None \<Rightarrow> (failed, issued')
                                      | Some picks \<Rightarrow>
                                          (respond (analyse bootstrapData td fixturesData picks gw),
                                           issued'))))))))"

section \<open>Notions used to state the properties\<close>

text \<open>
  The fixtures a team should see, in the words of the specification: those in which the
  team plays and whose gameweek lies in the window of nine gameweeks starting at the
  current one, in ascending order of gameweek.
\<close>

definition participates :: "team \<Rightarrow> fixture \<Rightarrow> bool" where
  "participates tm f \<longleftrightarrow> team_h f = t_id tm \<or> team_a f = t_id tm"

definition in_window :: "int \<Rightarrow> fixture \<Rightarrow> bool" where
  "in_window gw f \<longleftrightarrow> gw \<le> event f \<and> event f \<le> gw + 8"

definition qualifying :: "fixture list \<Rightarrow> int \<Rightarrow> team \<Rightarrow> fixture list" where
  "qualifying allFixtures gw tm = filter (\<lambda>f. participates tm f \<and> in_window gw f) allFixtures"

definition spec_window :: "fixture list \<Rightarrow> int \<Rightarrow> team \<Rightarrow> fixture list" where
  "spec_window allFixtures gw tm = sort_key event (qualifying allFixtures gw tm)"

definition non_increasing :: "rat list \<Rightarrow> bool" where
  "non_increasing xs = sorted_wrt (\<lambda>a b. a \<ge> b) xs"

text \<open>The two insights of the last \<open>if\<close>/\<open>else\<close> of \<open>generateInsights\<close>.\<close>

fun is_transfer_insight :: "insight \<Rightarrow> bool" where
  "is_transfer_insight (TransferOpportunities _) = True"
| "is_transfer_insight _ = False"

fun is_solid_insight :: "insight \<Rightarrow> bool" where
  "is_solid_insight TeamLookingSolid = True"
| "is_solid_insight _ = False"

section \<open>A small league, used for concrete runs\<close>

text \<open>
  Four teams, eight players, three fixtures. Everton has no fixture in the window. The
  manager holds Saka, Raya and Gabriel, all of Arsenal, whose next two fixtures both have
  difficulty 5.
\<close>

definition ex_ars :: team where
  "ex_ars = \<lparr> t_id = 1, short_name = ''ARS'' \<rparr>"

definition ex_teams :: "team list" where
  "ex_teams = [ex_ars, \<lparr> t_id = 2, short_name = ''CHE'' \<rparr>,
               \<lparr> t_id = 3, short_name = ''LIV'' \<rparr>, \<lparr> t_id = 4, short_name = ''EVE'' \<rparr>]"

definition ex_player :: "int \<Rightarrow> string \<Rightarrow> 't \<Rightarrow> int \<Rightarrow> int \<Rightarrow> int \<Rightarrow> rat \<Rightarrow> 't element" where
  "ex_player i n t c ty nc f =
     \<lparr> e_id = i, web_name = n, e_team = t, team_code = c, element_type = ty, now_cost = nc,
       e_form = f, selected_by_percent = ''10.0'', total_points = 50, points_per_game = ''4.0'' \<rparr>"

definition ex_elements :: "int element list" where
  "ex_elements =
     [ex_player 10 ''Saka'' 1 3 3 90 1,
      ex_player 11 ''Palmer'' 2 8 3 95 6,
      ex_player 12 ''Salah'' 3 14 3 130 8,
      ex_player 13 ''Raya'' 1 3 1 55 2,
      ex_player 14 ''Alisson'' 3 14 1 55 4,
      ex_player 15 ''Gabriel'' 1 3 2 60 2,
      ex_player 16 ''Virgil'' 3 14 2 60 5,
      ex_player 17 ''Beto'' 4 11 4 50 (- 1)]"

text \<open>Beto as the player lookup holds him.\<close>

definition ex_beto :: "string element" where
  "ex_beto = ex_player 17 ''Beto'' ''EVE'' 11 4 50 (- 1)"

text \<open>
  No event is marked current in the first payload; in the second the marked event has
  no id.
\<close>

definition ex_bootstrap :: bootstrap where
  "ex_bootstrap = \<lparr> events = [\<lparr> ev_id = Some 1, is_current = False \<rparr>],
                    elements = ex_elements, teams = ex_teams \<rparr>"

definition ex_bootstrap_noid :: bootstrap where
  "ex_bootstrap_noid = \<lparr> events = [\<lparr> ev_id = None, is_current = True \<rparr>],
                         elements = ex_elements, teams = ex_teams \<rparr>"

definition ex_fixture :: "int \<Rightarrow> int \<Rightarrow> int \<Rightarrow> int \<Rightarrow> int \<Rightarrow> fixture" where
  "ex_fixture g h a dh da =
     \<lparr> event = g, team_h = h, team_a = a, team_h_difficulty = dh, team_a_difficulty = da \<rparr>"

definition ex_fixtures :: "fixture list" where
  "ex_fixtures = [ex_fixture 2 3 1 2 5, ex_fixture 1 1 2 5 4, ex_fixture 3 2 3 3 2]"

text \<open>Arsenal against Chelsea at home in each of the gameweeks 1 to 9.\<close>

definition ex_nine :: "fixture list" where
  "ex_nine = map (\<lambda>g. ex_fixture g 1 2 2 4) [1, 2, 3, 4, 5, 6, 7, 8, 9]"

definition ex_teamData :: teamData where
  "ex_teamData = \<lparr> player_first_name = ''Ada'', player_last_name = ''Lovelace'',
                   last_deadline_value = 1000, last_deadline_bank = 5,
                   summary_overall_rank = 1000, summary_event_rank = 2000,
                   summary_overall_points = 150 \<rparr>"

definition ex_pick :: "int \<Rightarrow> pick" where
  "ex_pick i = \<lparr> pk_element = i, is_captain = False, is_vice_captain = False \<rparr>"

definition ex_picks :: "pick list" where
  "ex_picks = [ex_pick 10, ex_pick 13, ex_pick 15]"

definition ex_picks2 :: "pick list" where
  "ex_picks2 = [ex_pick 13, ex_pick 15, ex_pick 17]"

text \<open>
  The lookups, the projection and the analyzed squads of the small league, written out;
  the lemmas \<open>ex_lookups\<close>, \<open>ex_projection\<close> and \<open>ex_squads\<close> below show that the
  handler's code computes exactly these.
\<close>

definition ex_players :: "string element list" where
  "ex_players =
     [ex_player 10 ''Saka'' ''ARS'' 3 3 90 1,
      ex_player 11 ''Palmer'' ''CHE'' 8 3 95 6,
      ex_player 12 ''Salah'' ''LIV'' 14 3 130 8,
      ex_player 13 ''Raya'' ''ARS'' 3 1 55 2,
      ex_player 14 ''Alisson'' ''LIV'' 14 1 55 4,
      ex_player 15 ''Gabriel'' ''ARS'' 3 2 60 2,
      ex_player 16 ''Virgil'' ''LIV'' 14 2 60 5,
      ex_beto]"

definition ex_playersMap :: "(int, string element) jsmap" where
  "ex_playersMap = map (\<lambda>p. (e_id p, p)) ex_players"

definition ex_teamsMap :: "(int, team) jsmap" where
  "ex_teamsMap = map (\<lambda>t. (t_id t, t)) ex_teams"

definition ex_proj :: "int \<Rightarrow> string \<Rightarrow> int \<Rightarrow> bool \<Rightarrow> projected" where
  "ex_proj g opp d h = \<lparr> gameweek = g, opponent = opp, difficulty = d, isHome = h \<rparr>"

definition ex_teamFixtures :: "(jskey, projected list) jsmap" where
  "ex_teamFixtures =
     [(KStr ''ARS'', [ex_proj 1 ''CHE'' 5 True, ex_proj 2 ''@LIV'' 5 False]),
      (KStr ''CHE'', [ex_proj 1 ''@ARS'' 4 False, ex_proj 3 ''LIV'' 3 True]),
      (KStr ''LIV'', [ex_proj 2 ''ARS'' 2 True, ex_proj 3 ''@CHE'' 2 False]),
      (KStr ''EVE'', [])]"

definition ex_entry :: "int \<Rightarrow> string \<Rightarrow> string \<Rightarrow> string \<Rightarrow> rat \<Rightarrow> rat \<Rightarrow> string \<Rightarrow> squad_entry" where
  "ex_entry i n t pos pr f r =
     \<lparr> s_id = i, s_name = n, s_team = t, s_position = pos, s_price = pr, s_form = f,
       selectedBy = ''10.0'', s_fixtures = [], s_avgDifficulty = 3, rating = r,
       ratingClass = toLowerCase r, totalPoints = 50, pointsPerGame = ''4.0'',
       isCaptain = False, isViceCaptain = False \<rparr>"

definition ex_squad :: "squad_entry list" where
  "ex_squad =
     [ex_entry 10 ''Saka'' ''ARS'' ''MID'' 9 1 ''Average'',
      ex_entry 13 ''Raya'' ''ARS'' ''GK'' (11 / 2) 2 ''Average'',
      ex_entry 15 ''Gabriel'' ''ARS'' ''DEF'' 6 2 ''Average'']"

definition ex_squad2 :: "squad_entry list" where
  "ex_squad2 =
     [ex_entry 13 ''Raya'' ''ARS'' ''GK'' (11 / 2) 2 ''Average'',
      ex_entry 15 ''Gabriel'' ''ARS'' ''DEF'' 6 2 ''Average'',
      ex_entry 17 ''Beto'' ''EVE'' ''FWD'' 5 (- 1) ''Poor'']"

definition ex_transfers :: "transfer list" where
  "ex_transfers = findTransferOpportunities ex_squad ex_playersMap ex_teamFixtures (1 / 2)"

definition ex_upstream :: "bootstrap \<Rightarrow> upstream" where
  "ex_upstream bs = \<lparr> up_bootstrap = Some bs, up_team = (\<lambda>_. Some ex_teamData),
                       up_fixtures = Some ex_fixtures, up_picks = (\<lambda>_ _. Some ex_picks) \<rparr>"

definition no_upstream :: upstream where
  "no_upstream = \<lparr> up_bootstrap = None, up_team = (\<lambda>_. None), up_fixtures = None,
                    up_picks = (\<lambda>_ _. None) \<rparr>"


definition ex_get_none :: http_event where
  "ex_get_none = \<lparr> httpMethod = ''GET'', queryStringParameters = None \<rparr>"

definition ex_get_empty :: http_event where
  "ex_get_empty = \<lparr> httpMethod = ''GET'', queryStringParameters = Some [(''teamId'', [])] \<rparr>"

definition ex_options :: http_event where
  "ex_options = \<lparr> httpMethod = ''OPTIONS'', queryStringParameters = None \<rparr>"

section \<open>Properties\<close>

subsection \<open>The small league, computed by the code\<close>

lemma ex_lookups:
  "buildPlayersMap ex_bootstrap = ex_playersMap \<and> buildTeamsMap ex_bootstrap = ex_teamsMap \<and>
   buildPlayersMap ex_bootstrap_noid = ex_playersMap \<and> buildTeamsMap ex_bootstrap_noid = ex_teamsMap"
  by code_simp

lemma ex_projection: "getNextFixtures ex_fixtures 1 ex_teamsMap = ex_teamFixtures"
  by code_simp

lemma ex_squads:
  "analyzeSquad ex_playersMap ex_teamFixtures ex_picks = Some ex_squad \<and>
   analyzeSquad ex_playersMap ex_teamFixtures ex_picks2 = Some ex_squad2"
  by code_simp

subsection \<open>Maps\<close>

lemma map_of_map_set: "map_of (map_set k v m) = (map_of m)(k \<mapsto> v)"
  by (induction m) (auto simp: fun_eq_iff)

lemma map_get_map_set: "map_get (map_set k v m) k' = (if k' = k then Some v else map_get m k')"
  by (simp add: map_get_def map_of_map_set)

lemma map_get_fold_other:
  "k \<notin> key ` set xs \<Longrightarrow>
   map_get (fold (\<lambda>x m. map_set (key x) (val x) m) xs m0) k = map_get m0 k"
  by (induction xs arbitrary: m0) (auto simp: map_get_map_set)

lemma map_get_fold_distinct:
  "distinct (map key xs) \<Longrightarrow> x \<in> set xs \<Longrightarrow>
   map_get (fold (\<lambda>x m. map_set (key x) (val x) m) xs m0) (key x) = Some (val x)"
proof (induction xs arbitrary: m0)
  case Nil
  then show ?case by simp
next
  case (Cons y ys)
  show ?case
  proof (cases "x = y")
    case True
    with Cons.prems have "key x \<notin> key ` set ys" by auto
    then show ?thesis using True by (simp add: map_get_fold_other map_get_map_set)
  next
    case False
    with Cons show ?thesis by auto
  qed
qed

lemma map_get_fold_range:
  "map_get (fold (\<lambda>x m. map_set (key x) (val x) m) xs m0) k = Some v \<Longrightarrow>
   (\<exists>x \<in> set xs. key x = k \<and> v = val x) \<or> map_get m0 k = Some v"
proof (induction xs arbitrary: m0)
  case Nil
  then show ?case by simp
next
  case (Cons y ys)
  from Cons.prems
  have "map_get (fold (\<lambda>x m. map_set (key x) (val x) m) ys (map_set (key y) (val y) m0)) k = Some v"
    by simp
  from Cons.IH [OF this] show ?case
    by (auto simp: map_get_map_set split: if_splits)
qed

lemma first_fixtures_empty:
  "map_get teamFixtures k = None \<or> map_get teamFixtures k = Some [] \<Longrightarrow>
   first_fixtures teamFixtures k n = []"
  by (auto simp: first_fixtures_def)

lemma toFixed1_3: "toFixed1 3 = 3"
  by code_simp

subsection \<open>The fixture projector\<close>

lemma getNextFixtures_fold:
  "getNextFixtures allFixtures gw teamsMap =
     fold (\<lambda>x m. map_set (KStr (short_name (snd x)))
                    (team_fixtures (upcomingFixtures allFixtures gw) teamsMap (snd x)) m) teamsMap []"
  by (simp add: getNextFixtures_def Let_def case_prod_unfold)

text \<open>
  The source filters the window, sorts, and then filters by team; the specification
  selects the team's fixtures in the window and sorts them. Both give the same list.
\<close>

lemma team_fixtures_spec:
  "team_fixtures (upcomingFixtures allFixtures gw) teamsMap tm =
     take 8 (map (project teamsMap tm) (spec_window allFixtures gw tm))"
  by (simp add: team_fixtures_def upcomingFixtures_def spec_window_def qualifying_def filter_sort
      participates_def in_window_def conj_commute)

lemma getNextFixtures_keys:
  "map_get (getNextFixtures allFixtures gw teamsMap) k = Some fs \<Longrightarrow>
   \<exists>x \<in> set teamsMap. k = KStr (short_name (snd x)) \<and>
      fs = take 8 (map (project teamsMap (snd x)) (spec_window allFixtures gw (snd x)))"
  unfolding getNextFixtures_fold
  by (drule map_get_fold_range) (auto simp: map_get_def team_fixtures_spec)

text \<open>Every key of the projection is a string: a number finds nothing.\<close>

lemma getNextFixtures_no_numeric_key:
  "map_get (getNextFixtures allFixtures gw teamsMap) (KNum n) = None"
proof (cases "map_get (getNextFixtures allFixtures gw teamsMap) (KNum n)")
  case None
  then show ?thesis .
next
  case (Some fs)
  from getNextFixtures_keys [OF this] show ?thesis by auto
qed


lemma project_fields:
  "gameweek (project teamsMap tm f) = event f \<and>
   isHome (project teamsMap tm f) = (team_h f = t_id tm) \<and>
   difficulty (project teamsMap tm f) =
     (if team_h f = t_id tm then team_h_difficulty f else team_a_difficulty f) \<and>
   opponent (project teamsMap tm f) =
     (if team_h f = t_id tm then opponent_name teamsMap (team_a f)
      else ''@'' @ opponent_name teamsMap (team_h f))"
  by (simp add: project_def Let_def)

lemma gameweeks_sorted:
  "sorted (map gameweek (take 8 (map (project teamsMap tm) (spec_window allFixtures gw tm))))"
proof -
  have "gameweek \<circ> project teamsMap tm = event"
    by (simp add: fun_eq_iff project_fields)
  then have "map gameweek (map (project teamsMap tm) (spec_window allFixtures gw tm)) =
      map event (spec_window allFixtures gw tm)"
    by simp
  moreover have "sorted (take 8 (map event (spec_window allFixtures gw tm)))"
    by (rule sorted_wrt_take) (simp add: spec_window_def)
  ultimately show ?thesis
    by (simp only: take_map [symmetric])
qed

text \<open>
  C6 (as amended). For a team lookup whose short names are pairwise distinct, the
  projector stores under each team's short name the first 8 of the fixtures in which the
  team plays and whose gameweek lies in \<open>[currentGW, currentGW + 8]\<close>, taken in ascending
  order of gameweek, fixtures of one gameweek in the order of the fixture list. The stored
  list is sorted by gameweek, and each entry carries the fixture's gameweek, the home
  flag, the team's own difficulty rating and the opponent's short name, prefixed with
  \<open>@\<close> when the team plays away.
\<close>

theorem fixture_projection:
  assumes "(i, tm) \<in> set teamsMap"
    and "distinct (map (\<lambda>x. short_name (snd x)) teamsMap)"
  shows "map_get (getNextFixtures allFixtures gw teamsMap) (KStr (short_name tm)) =
           Some (take 8 (map (project teamsMap tm) (spec_window allFixtures gw tm))) \<and>
         sorted (map gameweek (take 8 (map (project teamsMap tm) (spec_window allFixtures gw tm)))) \<and>
         sorted (map event (spec_window allFixtures gw tm)) \<and>
         set (spec_window allFixtures gw tm) =
           {f \<in> set allFixtures. participates tm f \<and> in_window gw f} \<and>
         (\<forall>g. filter (\<lambda>f. event f = g) (spec_window allFixtures gw tm) =
              filter (\<lambda>f. event f = g) (qualifying allFixtures gw tm)) \<and>
         (\<forall>f. gameweek (project teamsMap tm f) = event f \<and>
              isHome (project teamsMap tm f) = (team_h f = t_id tm) \<and>
              difficulty (project teamsMap tm f) =
                (if team_h f = t_id tm then team_h_difficulty f else team_a_difficulty f) \<and>
              opponent (project teamsMap tm f) =
                (if team_h f = t_id tm then opponent_name teamsMap (team_a f)
                 else ''@'' @ opponent_name teamsMap (team_h f))) \<and>
         (\<forall>j opp. map_get teamsMap j = Some opp \<longrightarrow> opponent_name teamsMap j = short_name opp)"
proof -
  have d: "distinct (map (\<lambda>x. KStr (short_name (snd x))) teamsMap)"
    using assms(2) by (simp add: distinct_map inj_on_def)
  have stored: "map_get (getNextFixtures allFixtures gw teamsMap) (KStr (short_name tm)) =
           Some (take 8 (map (project teamsMap tm) (spec_window allFixtures gw tm)))"
    unfolding getNextFixtures_fold
    using map_get_fold_distinct [OF d assms(1),
        where val = "\<lambda>x. team_fixtures (upcomingFixtures allFixtures gw) teamsMap (snd x)"
          and ?m0.0 = "[]"]
    by (simp add: team_fixtures_spec)
  have win: "sorted (map event (spec_window allFixtures gw tm))"
    by (simp add: spec_window_def)
  have mem: "set (spec_window allFixtures gw tm) =
           {f \<in> set allFixtures. participates tm f \<and> in_window gw f}"
    by (auto simp: spec_window_def qualifying_def)
  have stable: "\<forall>g. filter (\<lambda>f. event f = g) (spec_window allFixtures gw tm) =
              filter (\<lambda>f. event f = g) (qualifying allFixtures gw tm)"
    by (simp add: spec_window_def sort_key_stable)
  have opp: "\<forall>j opp. map_get teamsMap j = Some opp \<longrightarrow> opponent_name teamsMap j = short_name opp"
    by (simp add: opponent_name_def)
  from stored gameweeks_sorted win mem stable project_fields opp show ?thesis
    by blast
qed

theorem fixture_projection_witness:
  "(1, ex_ars) \<in> set ex_teamsMap \<and>
   distinct (map (\<lambda>x. short_name (snd x)) ex_teamsMap) \<and>
   map_get (getNextFixtures ex_fixtures 1 ex_teamsMap) (KStr ''ARS'') =
     Some [ex_proj 1 ''CHE'' 5 True, ex_proj 2 ''@LIV'' 5 False]"
proof -
  have m: "(1, ex_ars) \<in> set ex_teamsMap"
    by code_simp
  have d: "distinct (map (\<lambda>x. short_name (snd x)) ex_teamsMap)"
    by code_simp
  have n: "short_name ex_ars = ''ARS''"
    by (simp add: ex_ars_def)
  have v: "take 8 (map (project ex_teamsMap ex_ars) (spec_window ex_fixtures 1 ex_ars)) =
     [ex_proj 1 ''CHE'' 5 True, ex_proj 2 ''@LIV'' 5 False]"
    by code_simp
  from fixture_projection [OF m d, of ex_fixtures 1] m d show ?thesis
    by (simp only: n v simp_thms)
qed

text \<open>
  C6 as stated fails: with nine fixtures of Arsenal in the gameweeks 1 to 9 and current
  gameweek 1, all nine lie in the window, and the projector keeps the first eight.
\<close>

theorem fixture_projection_counterexample:
  "map event (qualifying ex_nine 1 ex_ars) = [1, 2, 3, 4, 5, 6, 7, 8, 9] \<and>
   map_option (map gameweek) (map_get (getNextFixtures ex_nine 1 ex_teamsMap) (KStr ''ARS'')) =
     Some [1, 2, 3, 4, 5, 6, 7, 8]"
  by code_simp

text \<open>
  The projection is keyed by short name: of two teams with one short name the later one
  overwrites the earlier one. Here team 5 has no fixture and shares the short name of
  Arsenal, whose fixture is lost.
\<close>

lemma shared_short_name_overwrites:
  "map_get (getNextFixtures [ex_fixture 1 1 2 5 4] 1
              [(1, ex_ars), (5, \<lparr> t_id = 5, short_name = ''ARS'' \<rparr>)]) (KStr ''ARS'') = Some []"
  by code_simp

subsection \<open>The squad analyzer\<close>

text \<open>
  Whatever the projection holds, the analyzer finds no fixtures: it looks the player's
  numeric \<open>team_code\<close> up in a map keyed by short names.
\<close>

lemma analyzer_always_default:
  assumes "analyzePick playersMap (getNextFixtures allFixtures gw teamsMap) pk = Some s"
  shows "s_avgDifficulty s = 3 \<and> s_fixtures s = []"
  using assms
  by (auto simp: analyzePick_def Let_def first_fixtures_def getNextFixtures_no_numeric_key
      avgDifficultyOf_def mean_difficulty_def js_or_def toFixed1_3 split: option.splits)

text \<open>
  C1. The claim asks for the mean difficulty of the first 5 projected fixtures of the
  player's team. In the small league the three picks play for Arsenal, whose projected
  fixtures have difficulty 5 and 5, with mean 5. The analysis reports the default 3 and
  an empty fixture list for each of them, while the transfer suggester's scoring of the
  same projection, which looks the short name up, finds mean 5 for Saka.
\<close>

theorem analyzer_reads_wrong_key:
  "map_option (\<lambda>a. map s_team (a_squad a))
     (analyse ex_bootstrap ex_teamData ex_fixtures ex_picks 1) = Some [''ARS'', ''ARS'', ''ARS''] \<and>
   map difficulty
     (first_fixtures (getNextFixtures ex_fixtures 1 (buildTeamsMap ex_bootstrap)) (KStr ''ARS'') 5)
     = [5, 5] \<and>
   avgDifficultyOf
     (first_fixtures (getNextFixtures ex_fixtures 1 (buildTeamsMap ex_bootstrap)) (KStr ''ARS'') 5)
     = 5 \<and>
   map_option (\<lambda>a. map s_avgDifficulty (a_squad a))
     (analyse ex_bootstrap ex_teamData ex_fixtures ex_picks 1) = Some [3, 3, 3] \<and>
   map_option (\<lambda>a. map s_fixtures (a_squad a))
     (analyse ex_bootstrap ex_teamData ex_fixtures ex_picks 1) = Some [[], [], []] \<and>
   map_option c_avgDifficulty
     (map_option (score_candidate (getNextFixtures ex_fixtures 1 (buildTeamsMap ex_bootstrap)))
        (map_get (buildPlayersMap ex_bootstrap) 10)) = Some 5"
  by code_simp

text \<open>
  C4. On an empty fixture list the mean is \<open>NaN\<close> and the default 3 replaces it. For a
  team whose projected window is empty, the analyzer's average difficulty of a player of
  that team is 3, and so is the average difficulty the transfer suggester computes for a
  candidate of that team.
\<close>

theorem empty_window_default:
  "mean_difficulty [] = NaN \<and> avgDifficultyOf [] = 3 \<and>
   (map_get (getNextFixtures allFixtures gw teamsMap) (KStr (e_team player)) = Some [] \<longrightarrow>
    map_get playersMap (pk_element pk) = Some player \<longrightarrow>
    map_option s_avgDifficulty (analyzePick playersMap (getNextFixtures allFixtures gw teamsMap) pk)
      = Some 3) \<and>
   (map_get teamFixtures (KNum (team_code player)) = Some [] \<longrightarrow>
    map_get playersMap (pk_element pk) = Some player \<longrightarrow>
    map_option s_avgDifficulty (analyzePick playersMap teamFixtures pk) = Some 3) \<and>
   (map_get teamFixtures (KStr (e_team p)) = Some [] \<longrightarrow>
    c_avgDifficulty (score_candidate teamFixtures p) = 3 \<and>
    c_fixtures (score_candidate teamFixtures p) = [])"
proof -
  have e: "mean_difficulty [] = NaN" "avgDifficultyOf [] = 3"
    by (simp_all add: mean_difficulty_def avgDifficultyOf_def js_or_def)
  have a: "map_option s_avgDifficulty (analyzePick playersMap tf pk) = Some 3"
    if "first_fixtures tf (KNum (team_code player)) 5 = []"
      and "map_get playersMap (pk_element pk) = Some player" for tf
    using that by (simp add: analyzePick_def Let_def e toFixed1_3)
  have h: "first_fixtures (getNextFixtures allFixtures gw teamsMap) (KNum (team_code player)) 5 = []"
    by (simp add: first_fixtures_empty getNextFixtures_no_numeric_key)
  have g: "first_fixtures teamFixtures (KNum (team_code player)) 5 = []"
    if "map_get teamFixtures (KNum (team_code player)) = Some []"
    using that by (simp add: first_fixtures_empty)
  have c: "c_avgDifficulty (score_candidate teamFixtures p) = 3 \<and>
           c_fixtures (score_candidate teamFixtures p) = []"
    if "map_get teamFixtures (KStr (e_team p)) = Some []"
    using that by (simp add: score_candidate_def Let_def first_fixtures_empty e)
  from e a [OF h] a [OF g] c show ?thesis
    by blast
qed

theorem empty_window_default_witness:
  "map_get (getNextFixtures ex_fixtures 1 ex_teamsMap) (KStr (e_team ex_beto)) = Some [] \<and>
   map_get ex_playersMap (pk_element (ex_pick 17)) = Some ex_beto \<and>
   map_option s_avgDifficulty
     (analyzePick ex_playersMap (getNextFixtures ex_fixtures 1 ex_teamsMap) (ex_pick 17)) = Some 3 \<and>
   c_avgDifficulty (score_candidate (getNextFixtures ex_fixtures 1 ex_teamsMap) ex_beto) = 3"
proof -
  have w: "map_get (getNextFixtures ex_fixtures 1 ex_teamsMap) (KStr (e_team ex_beto)) = Some []"
    by code_simp
  have r: "map_get ex_playersMap (pk_element (ex_pick 17)) = Some ex_beto"
    by code_simp
  from empty_window_default [of ex_fixtures 1 ex_teamsMap ex_beto ex_playersMap "ex_pick 17"
      "getNextFixtures ex_fixtures 1 ex_teamsMap" ex_beto] w r
  show ?thesis by blast
qed

subsection \<open>The rating\<close>



subsection \<open>The transfer suggester\<close>

lemma alternatives_eligible:
  assumes "inc \<in> set (alternatives squad playersMap teamFixtures bank out)"
  shows "\<exists>p \<in> set (map_values playersMap).
           eligible squad bank out p \<and> inc = score_candidate teamFixtures p"
proof -
  from assms
  have "inc \<in> set (sort_key (\<lambda>a. - (e_form (c_player a) * 2 - c_avgDifficulty a))
          (map (score_candidate teamFixtures)
             (filter (eligible squad bank out) (map_values playersMap))))"
    unfolding alternatives_def by (rule in_set_takeD)
  then show ?thesis by auto
qed

lemma c_player_score_candidate: "c_player (score_candidate teamFixtures p) = p"
  by (simp add: score_candidate_def Let_def)

lemma transfer_from_candidates:
  assumes "t \<in> set (findTransferOpportunities squad playersMap teamFixtures bank)"
  shows "\<exists>out \<in> set (transferOutCandidates squad).
           \<exists>inc \<in> set (alternatives squad playersMap teamFixtures bank out).
             t = make_transfer out inc"
proof -
  from assms have "t \<in> set (concat
          (map (\<lambda>out. case alternatives squad playersMap teamFixtures bank out of
                        [] \<Rightarrow> []
                      | inc # _ \<Rightarrow> [make_transfer out inc])
             (transferOutCandidates squad)))"
    unfolding findTransferOpportunities_def by (rule in_set_takeD)
  then obtain out where o: "out \<in> set (transferOutCandidates squad)"
    and m: "t \<in> set (case alternatives squad playersMap teamFixtures bank out of
                        [] \<Rightarrow> []
                      | inc # _ \<Rightarrow> [make_transfer out inc])"
    by auto
  from m obtain inc rest
    where a: "alternatives squad playersMap teamFixtures bank out = inc # rest"
      and "t = make_transfer out inc"
    by (cases "alternatives squad playersMap teamFixtures bank out") auto
  moreover from a have "inc \<in> set (alternatives squad playersMap teamFixtures bank out)"
    by simp
  ultimately show ?thesis using o by blast
qed

lemma transferOutCandidates_subset: "set (transferOutCandidates squad) \<subseteq> set squad"
proof
  fix x assume "x \<in> set (transferOutCandidates squad)"
  then have "x \<in> set (sort_key s_form
                       (filter (\<lambda>p. s_form p < 3 \<or> s_avgDifficulty p > 7 / 2) squad))"
    unfolding transferOutCandidates_def by (rule in_set_takeD)
  then show "x \<in> set squad" by simp
qed

text \<open>
  C3. In every transfer the suggester returns, the incoming player is no member of the
  squad, costs at most the outgoing player's price plus the bank, has the outgoing
  player's position, and has a form strictly above the outgoing player's form. The
  outgoing player is a squad member and the incoming one comes from the player pool.
\<close>

theorem transfer_pairs_sound:
  assumes "t \<in> set (findTransferOpportunities squad playersMap teamFixtures bank)"
  shows "e_id (c_player (playerIn t)) \<notin> s_id ` set squad \<and>
         of_int (now_cost (c_player (playerIn t))) / 10 \<le> s_price (playerOut t) + bank \<and>
         getPosition (element_type (c_player (playerIn t))) = s_position (playerOut t) \<and>
         e_form (c_player (playerIn t)) > s_form (playerOut t) \<and>
         playerOut t \<in> set squad \<and>
         c_player (playerIn t) \<in> set (map_values playersMap)"
proof -
  from transfer_from_candidates [OF assms] obtain out inc where
    out: "out \<in> set (transferOutCandidates squad)" and
    inc: "inc \<in> set (alternatives squad playersMap teamFixtures bank out)" and
    t: "t = make_transfer out inc"
    by blast
  from alternatives_eligible [OF inc] obtain p where
    p: "p \<in> set (map_values playersMap)" "eligible squad bank out p"
      "inc = score_candidate teamFixtures p"
    by blast
  have io: "playerIn t = inc" "playerOut t = out"
    using t by (simp_all add: make_transfer_def)
  have cp: "c_player inc = p"
    using p(3) by (simp add: c_player_score_candidate)
  from p(2) have "e_id p \<notin> s_id ` set squad"
    by (auto simp: eligible_def find_None_iff)
  moreover from p(2) have "of_int (now_cost p) / 10 \<le> s_price out + bank"
    "getPosition (element_type p) = s_position out" "e_form p > s_form out"
    by (simp_all add: eligible_def)
  moreover have "out \<in> set squad"
    using out transferOutCandidates_subset by blast
  ultimately show ?thesis
    using p(1) io cp by simp
qed

text \<open>
  In the small league with a bank of 0.5 the first transfer is Saka (9.0, form 1.0) out
  and Palmer (9.5, form 6.0) in.
\<close>

theorem transfer_pairs_sound_witness:
  "hd ex_transfers \<in> set (findTransferOpportunities ex_squad ex_playersMap ex_teamFixtures (1 / 2)) \<and>
   s_id (playerOut (hd ex_transfers)) = 10 \<and>
   e_id (c_player (playerIn (hd ex_transfers))) = 11 \<and>
   e_id (c_player (playerIn (hd ex_transfers))) \<notin> s_id ` set ex_squad \<and>
   of_int (now_cost (c_player (playerIn (hd ex_transfers)))) / 10
     \<le> s_price (playerOut (hd ex_transfers)) + 1 / 2 \<and>
   getPosition (element_type (c_player (playerIn (hd ex_transfers))))
     = s_position (playerOut (hd ex_transfers)) \<and>
   e_form (c_player (playerIn (hd ex_transfers))) > s_form (playerOut (hd ex_transfers))"
proof -
  have ids: "ex_transfers \<noteq> [] \<and> s_id (playerOut (hd ex_transfers)) = 10 \<and>
             e_id (c_player (playerIn (hd ex_transfers))) = 11"
    by code_simp
  then have m: "hd ex_transfers \<in> set (findTransferOpportunities ex_squad ex_playersMap
                                          ex_teamFixtures (1 / 2))"
    unfolding ex_transfers_def by simp
  from transfer_pairs_sound [OF m] m ids show ?thesis
    by blast
qed

text \<open>C8. The transfer suggester returns at most 2 recommendations.\<close>

theorem transfers_at_most_two:
  "length (findTransferOpportunities squad playersMap teamFixtures bank) \<le> 2"
  by (simp add: findTransferOpportunities_def)

text \<open>
  In the small league three squad members are weak and each of them has a replacement;
  two transfers are returned.
\<close>

theorem transfers_at_most_two_witness:
  "length (transferOutCandidates ex_squad) = 3 \<and>
   map (\<lambda>out. length (alternatives ex_squad ex_playersMap ex_teamFixtures (1 / 2) out))
     (transferOutCandidates ex_squad) = [1, 1, 1] \<and>
   length (findTransferOpportunities ex_squad ex_playersMap ex_teamFixtures (1 / 2)) = 2"
proof -
  have "length (transferOutCandidates ex_squad) = 3"
    by code_simp
  moreover have "map (\<lambda>out. length (alternatives ex_squad ex_playersMap ex_teamFixtures (1 / 2) out))
     (transferOutCandidates ex_squad) = [1, 1, 1]"
    by code_simp
  moreover have "2 \<le> length (findTransferOpportunities ex_squad ex_playersMap ex_teamFixtures (1 / 2))"
    by code_simp
  ultimately show ?thesis
    using transfers_at_most_two [of ex_squad ex_playersMap ex_teamFixtures "1 / 2"] by simp
qed

subsection \<open>The captaincy ranker\<close>

lemma captainCandidates_sorted:
  "non_increasing (map captainScore (captainCandidates squad teamFixtures))"
proof -
  have "sorted (map (\<lambda>c. - captainScore c)
                 (sort_key (\<lambda>c. - captainScore c) (map (score_captain teamFixtures) squad)))"
    by (rule sorted_sort_key)
  then have "sorted (take 3 (map (\<lambda>c. - captainScore c)
                 (sort_key (\<lambda>c. - captainScore c) (map (score_captain teamFixtures) squad))))"
    by (rule sorted_wrt_take)
  then have "sorted (map (\<lambda>c. - captainScore c) (captainCandidates squad teamFixtures))"
    by (simp add: captainCandidates_def take_map)
  then show ?thesis
    by (simp add: non_increasing_def sorted_wrt_map)
qed

lemma length_captains:
  "length (getCaptainRecommendations squad teamFixtures) = min 3 (length squad)"
  by (simp add: getCaptainRecommendations_def captainCandidates_def min.commute)

lemma confidence_captains:
  "map confidence (getCaptainRecommendations squad teamFixtures) =
     map cc_confidence (captainCandidates squad teamFixtures)"
proof -
  have "map confidence (map render_captain ips) = map cc_confidence (map snd ips)" for ips
    by (induction ips) (auto simp: render_captain_def)
  then show ?thesis
    unfolding getCaptainRecommendations_def by (simp only: map_snd_enumerate)
qed

lemma captainCandidates_from_squad:
  assumes "c \<in> set (captainCandidates squad teamFixtures)"
  shows "\<exists>p \<in> set squad. c = score_captain teamFixtures p"
proof -
  from assms
  have "c \<in> set (sort_key (\<lambda>c. - captainScore c) (map (score_captain teamFixtures) squad))"
    unfolding captainCandidates_def by (rule in_set_takeD)
  then show ?thesis by auto
qed

lemma cc_confidence_formula:
  "cc_confidence (score_captain teamFixtures p) =
     min 95 (Math_round (captainScore (score_captain teamFixtures p) * (6 / 5)))"
  by (simp add: score_captain_def Let_def)

lemma Math_round_nonneg: "0 \<le> x \<Longrightarrow> 0 \<le> Math_round x"
  by (simp add: Math_round_def)

lemma score_captain_nonneg:
  assumes "0 \<le> s_form p"
    and "\<forall>f \<in> set (first_fixtures teamFixtures (KStr (s_team p)) 1). difficulty f \<le> 6"
  shows "0 \<le> captainScore (score_captain teamFixtures p)"
proof (cases "first_fixtures teamFixtures (KStr (s_team p)) 1")
  case Nil
  then show ?thesis
    using assms(1) by (simp add: score_captain_def Let_def)
next
  case (Cons f fs)
  with assms(2) have "difficulty f \<le> 6"
    by simp
  then have "(0::rat) \<le> of_int ((6 - difficulty f) * 5)"
    by simp
  then show ?thesis
    using assms(1) Cons by (simp add: score_captain_def Let_def)
qed

lemma candidate_confidence:
  assumes "c \<in> set (captainCandidates squad teamFixtures)"
  shows "cc_confidence c = min 95 (Math_round (captainScore c * (6 / 5))) \<and>
         cc_confidence c \<le> 95 \<and> (0 \<le> captainScore c \<longrightarrow> 0 \<le> cc_confidence c)"
proof -
  from captainCandidates_from_squad [OF assms] obtain p
    where c: "c = score_captain teamFixtures p"
    by blast
  have f: "cc_confidence c = min 95 (Math_round (captainScore c * (6 / 5)))"
    unfolding c by (rule cc_confidence_formula)
  moreover have "0 \<le> captainScore c \<Longrightarrow> 0 \<le> Math_round (captainScore c * (6 / 5))"
    by (rule Math_round_nonneg) simp
  ultimately show ?thesis
    by simp
qed

text \<open>
  C2 (as amended). The ranker returns exactly \<open>min 3 (length squad)\<close> entries, in the
  order of the ranked candidates, whose captain scores are non-increasing (equal scores
  are possible). The confidence of each entry is \<open>min 95 (round (score * 1.2))\<close>, at most
  95; it is at least 0 when the score is, and the score is at least 0 for every squad
  whose forms are non-negative and whose next fixtures have a difficulty of at most 6.
\<close>

theorem captain_ranking:
  "length (getCaptainRecommendations squad teamFixtures) = min 3 (length squad) \<and>
   non_increasing (map captainScore (captainCandidates squad teamFixtures)) \<and>
   map confidence (getCaptainRecommendations squad teamFixtures) =
     map cc_confidence (captainCandidates squad teamFixtures) \<and>
   (\<forall>c \<in> set (captainCandidates squad teamFixtures).
      cc_confidence c = min 95 (Math_round (captainScore c * (6 / 5))) \<and>
      cc_confidence c \<le> 95 \<and>
      (0 \<le> captainScore c \<longrightarrow> 0 \<le> cc_confidence c)) \<and>
   ((\<forall>p \<in> set squad. 0 \<le> s_form p \<and>
        (\<forall>f \<in> set (first_fixtures teamFixtures (KStr (s_team p)) 1). difficulty f \<le> 6)) \<longrightarrow>
    (\<forall>r \<in> set (getCaptainRecommendations squad teamFixtures).
        0 \<le> confidence r \<and> confidence r \<le> 95))"
proof -
  have bounds: "\<forall>r \<in> set (getCaptainRecommendations squad teamFixtures).
        0 \<le> confidence r \<and> confidence r \<le> 95"
    if h: "\<forall>p \<in> set squad. 0 \<le> s_form p \<and>
        (\<forall>f \<in> set (first_fixtures teamFixtures (KStr (s_team p)) 1). difficulty f \<le> 6)"
  proof
    fix r assume "r \<in> set (getCaptainRecommendations squad teamFixtures)"
    then have "confidence r \<in> set (map confidence (getCaptainRecommendations squad teamFixtures))"
      by simp
    then have "confidence r \<in> set (map cc_confidence (captainCandidates squad teamFixtures))"
      by (simp only: confidence_captains)
    then obtain c where c: "c \<in> set (captainCandidates squad teamFixtures)"
      and r: "confidence r = cc_confidence c"
      by auto
    from captainCandidates_from_squad [OF c] obtain p
      where p: "p \<in> set squad" and cp: "c = score_captain teamFixtures p"
      by blast
    from h p have "0 \<le> captainScore c"
      unfolding cp by (intro score_captain_nonneg) auto
    with candidate_confidence [OF c] have "0 \<le> cc_confidence c \<and> cc_confidence c \<le> 95"
      by blast
    then show "0 \<le> confidence r \<and> confidence r \<le> 95"
      unfolding r .
  qed
  from length_captains captainCandidates_sorted confidence_captains candidate_confidence bounds
  show ?thesis
    by blast
qed

text \<open>
  In the small league the squad of Saka, Raya and Gabriel has non-negative forms and a
  next fixture of difficulty 5: three entries with confidence 36, 36 and 24.
\<close>

theorem captain_ranking_witness:
  "list_all (\<lambda>p. 0 \<le> s_form p \<and>
      list_all (\<lambda>f. difficulty f \<le> 6) (first_fixtures ex_teamFixtures (KStr (s_team p)) 1))
     ex_squad \<and>
   hd (captainCandidates ex_squad ex_teamFixtures) \<in> set (captainCandidates ex_squad ex_teamFixtures) \<and>
   0 \<le> captainScore (hd (captainCandidates ex_squad ex_teamFixtures)) \<and>
   0 \<le> cc_confidence (hd (captainCandidates ex_squad ex_teamFixtures)) \<and>
   cc_confidence (hd (captainCandidates ex_squad ex_teamFixtures)) \<le> 95 \<and>
   length (getCaptainRecommendations ex_squad ex_teamFixtures) = 3 \<and>
   map confidence (getCaptainRecommendations ex_squad ex_teamFixtures) = [36, 36, 24] \<and>
   list_all (\<lambda>r. 0 \<le> confidence r \<and> confidence r \<le> 95)
     (getCaptainRecommendations ex_squad ex_teamFixtures)"
proof -
  have h: "list_all (\<lambda>p. 0 \<le> s_form p \<and>
      list_all (\<lambda>f. difficulty f \<le> 6) (first_fixtures ex_teamFixtures (KStr (s_team p)) 1))
     ex_squad"
    by code_simp
  then have h': "\<forall>p \<in> set ex_squad. 0 \<le> s_form p \<and>
      (\<forall>f \<in> set (first_fixtures ex_teamFixtures (KStr (s_team p)) 1). difficulty f \<le> 6)"
    by (simp only: list_all_iff)
  have ne: "captainCandidates ex_squad ex_teamFixtures \<noteq> []"
    by code_simp
  then have m: "hd (captainCandidates ex_squad ex_teamFixtures)
                  \<in> set (captainCandidates ex_squad ex_teamFixtures)"
    by simp
  have s: "0 \<le> captainScore (hd (captainCandidates ex_squad ex_teamFixtures))"
    by code_simp
  have l: "length ex_squad = 3"
    by (simp add: ex_squad_def)
  have v: "map cc_confidence (captainCandidates ex_squad ex_teamFixtures) = [36, 36, 24]"
    by code_simp
  note ranking = captain_ranking [of ex_squad ex_teamFixtures]
  from ranking l have len: "length (getCaptainRecommendations ex_squad ex_teamFixtures) = 3"
    by simp
  from ranking m s
  have hb: "0 \<le> cc_confidence (hd (captainCandidates ex_squad ex_teamFixtures)) \<and>
            cc_confidence (hd (captainCandidates ex_squad ex_teamFixtures)) \<le> 95"
    by blast
  from ranking have "map confidence (getCaptainRecommendations ex_squad ex_teamFixtures) =
      map cc_confidence (captainCandidates ex_squad ex_teamFixtures)"
    by blast
  with v have cv: "map confidence (getCaptainRecommendations ex_squad ex_teamFixtures) = [36, 36, 24]"
    by simp
  from ranking h'
  have "\<forall>r \<in> set (getCaptainRecommendations ex_squad ex_teamFixtures).
      0 \<le> confidence r \<and> confidence r \<le> 95"
    by blast
  then have bounds: "list_all (\<lambda>r. 0 \<le> confidence r \<and> confidence r \<le> 95)
     (getCaptainRecommendations ex_squad ex_teamFixtures)"
    by (simp only: list_all_iff)
  from h m s hb len cv bounds show ?thesis
    by blast
qed

text \<open>
  C2 as stated fails: in the small league the analyzed squad of Raya, Gabriel and Beto
  has the captain scores 30, 30 and \<open>-10\<close>, which are not strictly descending, and the
  confidences 36, 36 and \<open>-12\<close>, the last one below 0.
\<close>

theorem captain_ranking_counterexample:
  "analyzeSquad ex_playersMap ex_teamFixtures ex_picks2 = Some ex_squad2 \<and>
   map s_form ex_squad2 = [2, 2, - 1] \<and>
   map captainScore (captainCandidates ex_squad2 ex_teamFixtures) = [30, 30, - 10] \<and>
   map confidence (getCaptainRecommendations ex_squad2 ex_teamFixtures) = [36, 36, - 12]"
proof -
  have "map s_form ex_squad2 = [2, 2, - 1] \<and>
   map captainScore (captainCandidates ex_squad2 ex_teamFixtures) = [30, 30, - 10] \<and>
   map confidence (getCaptainRecommendations ex_squad2 ex_teamFixtures) = [36, 36, - 12]"
    by code_simp
  with ex_squads show ?thesis
    by blast
qed

subsection \<open>The insight generator\<close>

text \<open>
  C9. The insight list ends with exactly one of the two final insights: the
  transfers-found insight when the transfer list is non-empty, the no-transfers-needed
  insight when it is empty. The list holds one of them once and the other not at all.
\<close>

theorem insights_final:
  "last (generateInsights squad transfers td) =
     (if transfers = [] then TeamLookingSolid else TransferOpportunities (length transfers)) \<and>
   length (filter is_transfer_insight (generateInsights squad transfers td)) =
     (if transfers = [] then 0 else 1) \<and>
   length (filter is_solid_insight (generateInsights squad transfers td)) =
     (if transfers = [] then 1 else 0)"
  by (simp add: generateInsights_def Let_def)

text \<open>
  In the small league: without transfers the list ends with \<open>Team Looking Solid\<close>, with
  the two suggested transfers it ends with \<open>Transfer Opportunities\<close>.
\<close>

theorem insights_final_witness:
  "last (generateInsights ex_squad [] ex_teamData) = TeamLookingSolid \<and>
   length (filter is_transfer_insight (generateInsights ex_squad [] ex_teamData)) = 0 \<and>
   title (last (generateInsights ex_squad [] ex_teamData)) = ''Team Looking Solid'' \<and>
   ex_transfers \<noteq> [] \<and>
   last (generateInsights ex_squad ex_transfers ex_teamData) = TransferOpportunities 2 \<and>
   length (filter is_solid_insight (generateInsights ex_squad ex_transfers ex_teamData)) = 0"
proof -
  have n: "ex_transfers \<noteq> [] \<and> length ex_transfers = 2"
    by code_simp
  from insights_final [of ex_squad "[]" ex_teamData]
    insights_final [of ex_squad ex_transfers ex_teamData] n
  show ?thesis
    by simp
qed

subsection \<open>The handler\<close>

text \<open>
  C7 (as amended). For every request other than an \<open>OPTIONS\<close> preflight whose \<open>teamId\<close>
  query parameter is missing or empty, the handler answers 400 with a JSON body that has
  an \<open>error\<close> field, and has issued no upstream request.
\<close>

theorem missing_teamId_400:
  assumes "httpMethod ev \<noteq> ''OPTIONS''"
    and "teamId_of ev = None \<or> teamId_of ev = Some []"
  shows "statusCode (fst (handler up ev)) = 400 \<and>
         ''error'' \<in> set (body_fields (body (fst (handler up ev)))) \<and>
         body (fst (handler up ev)) = Json_error ''Team ID is required'' \<and>
         snd (handler up ev) = []"
  using assms by (auto simp: handler_def bad_request_def)

theorem missing_teamId_400_witness:
  "httpMethod ex_get_none \<noteq> ''OPTIONS'' \<and> teamId_of ex_get_none = None \<and>
   statusCode (fst (handler (ex_upstream ex_bootstrap) ex_get_none)) = 400 \<and>
   snd (handler (ex_upstream ex_bootstrap) ex_get_none) = [] \<and>
   httpMethod ex_get_empty \<noteq> ''OPTIONS'' \<and> teamId_of ex_get_empty = Some [] \<and>
   statusCode (fst (handler (ex_upstream ex_bootstrap) ex_get_empty)) = 400 \<and>
   snd (handler (ex_upstream ex_bootstrap) ex_get_empty) = []"
proof -
  have a: "httpMethod ex_get_none \<noteq> ''OPTIONS''" and b: "teamId_of ex_get_none = None"
    by (simp_all add: ex_get_none_def teamId_of_def)
  have c: "httpMethod ex_get_empty \<noteq> ''OPTIONS''" and d: "teamId_of ex_get_empty = Some []"
    by (simp_all add: ex_get_empty_def teamId_of_def)
  from b have b': "teamId_of ex_get_none = None \<or> teamId_of ex_get_none = Some []"
    by simp
  from d have d': "teamId_of ex_get_empty = None \<or> teamId_of ex_get_empty = Some []"
    by simp
  from missing_teamId_400 [OF a b', of "ex_upstream ex_bootstrap"]
    missing_teamId_400 [OF c d', of "ex_upstream ex_bootstrap"] a b c d
  show ?thesis
    by blast
qed

text \<open>
  C7 as stated fails: an \<open>OPTIONS\<close> request without \<open>teamId\<close> is answered 200 with an
  empty body, before the parameter is looked at.
\<close>

theorem missing_teamId_400_counterexample:
  "teamId_of ex_options = None \<and>
   statusCode (fst (handler no_upstream ex_options)) = 200 \<and>
   body (fst (handler no_upstream ex_options)) = Empty \<and>
   body_fields (body (fst (handler no_upstream ex_options))) = []"
  by (simp add: handler_def teamId_of_def ex_options_def)




end
